theory Spec2Isabelle
  imports Complex_Main
begin

section \<open>MJCF to SDFormat: the geom converter of \<open>converters/link.py\<close>\<close>

subsection \<open>Input data: the MJCF elements\<close>

text \<open>
  The converter reads three attributes of an MJCF geom. An attribute that the document does
  not write reads as \<open>None\<close>, so all three are optional: the source tests \<open>name\<close> and \<open>group\<close>
  against \<open>None\<close>, and it uses \<open>type\<close> untested, as the left operand of a string
  concatenation. The MJCF numbers are reals here; the converter never computes with them,
  it only moves them from one container to another. The arrays \<open>pos\<close>, \<open>euler\<close> and
  \<open>fullinertia\<close> have the fixed sizes 3, 3 and 6 of the MJCF schema, so the indices \<open>[0]\<close> ..
  \<open>[5]\<close> of the source are the components of a tuple.
\<close>

type_synonym Vector3d = "real \<times> real \<times> real"

type_synonym Vector6d = "real \<times> real \<times> real \<times> real \<times> real \<times> real"

record mjcf_geom =
  name :: "string option"
  type :: "string option"
  group :: "int option"

text \<open>\<open>mass\<close> is required by the schema (the source does not test it).\<close>

record mjcf_inertial =
  mass :: real
  pos :: "Vector3d option"
  euler :: "Vector3d option"
  fullinertia :: "Vector6d option"

subsection \<open>Output data: the values of ignition.math and sdformat\<close>

text \<open>
  \<open>MassMatrix3d(mass, ixxyyzz, ixyxzyz)\<close>, \<open>Pose3d(x, y, z, roll, pitch, yaw)\<close> and
  \<open>Inertiald(mass_matrix, pose)\<close> are the constructor calls of the source; a value is
  the constructor applied to its arguments.
\<close>

datatype MassMatrix3d = MassMatrix3d real Vector3d Vector3d

datatype Pose3d = Pose3d real real real real real real

datatype Inertiald = Inertiald MassMatrix3d Pose3d

fun mass_matrix :: "Inertiald \<Rightarrow> MassMatrix3d" where
  "mass_matrix (Inertiald m p) = m"

fun pose :: "Inertiald \<Rightarrow> Pose3d" where
  "pose (Inertiald m p) = p"

fun diagonal_moments :: "MassMatrix3d \<Rightarrow> Vector3d" where
  "diagonal_moments (MassMatrix3d m ixxyyzz ixyxzyz) = ixxyyzz"

fun off_diagonal_moments :: "MassMatrix3d \<Rightarrow> Vector3d" where
  "off_diagonal_moments (MassMatrix3d m ixxyyzz ixyxzyz) = ixyxzyz"

text \<open>The roll, pitch and yaw a pose was constructed with.\<close>

fun pose_euler :: "Pose3d \<Rightarrow> Vector3d" where
  "pose_euler (Pose3d x y z roll pitch yaw) = (roll, pitch, yaw)"

text \<open>
  An \<open>sdf.Link\<close> as far as the converter touches it: its name, the inertial set by
  \<open>set_inertial\<close> (\<open>None\<close> while the constructor's default is in place), and the visuals
  and collisions in the order they were added. The visual and collision types are those
  of the geometry converters, which are parameters below.
\<close>

record ('v, 'c) sdf_Link =
  link_name :: string
  link_inertial :: "Inertiald option"
  link_visuals :: "'v list"
  link_collisions :: "'c list"

definition Link :: "('v, 'c) sdf_Link" where
  "Link = \<lparr>link_name = [], link_inertial = None, link_visuals = [], link_collisions = []\<rparr>"

definition set_name :: "('v, 'c) sdf_Link \<Rightarrow> string \<Rightarrow> ('v, 'c) sdf_Link" where
  "set_name link s = link\<lparr>link_name := s\<rparr>"

definition set_inertial :: "('v, 'c) sdf_Link \<Rightarrow> Inertiald \<Rightarrow> ('v, 'c) sdf_Link" where
  "set_inertial link i = link\<lparr>link_inertial := Some i\<rparr>"

definition add_visual :: "('v, 'c) sdf_Link \<Rightarrow> 'v \<Rightarrow> ('v, 'c) sdf_Link" where
  "add_visual link v = link\<lparr>link_visuals := link_visuals link @ [v]\<rparr>"

definition add_collision :: "('v, 'c) sdf_Link \<Rightarrow> 'c \<Rightarrow> ('v, 'c) sdf_Link" where
  "add_collision link c = link\<lparr>link_collisions := link_collisions link @ [c]\<rparr>"

subsection \<open>Python's \<open>str\<close> on integers, and the exception of \<open>None + "_"\<close>\<close>

definition digit_char :: "nat \<Rightarrow> char" where
  "digit_char d = ''0123456789'' ! d"

fun str_nat :: "nat \<Rightarrow> string" where
  "str_nat n = (if n < 10 then [digit_char n] else str_nat (n div 10) @ [digit_char (n mod 10)])"

definition str :: "int \<Rightarrow> string" where
  "str i = (if i < 0 then CHR ''-'' # str_nat (nat (- i)) else str_nat (nat i))"

datatype py_error = TypeError

subsection \<open>The module constants and \<open>add_mjcf_geom_to_sdf\<close>\<close>

definition COLLISION_GEOM_GROUP :: int where
  "COLLISION_GEOM_GROUP = 3"

definition VISUAL_GEOM_GROUP :: int where
  "VISUAL_GEOM_GROUP = 0"

text \<open>
  The module global \<open>NUMBER_OF_SDF_LINK\<close> is read and written by the function, so the
  model takes its value and returns, beside the outcome, the value the call leaves. The
  outcome is the link, or the exception that ends the call: for a geom without a name
  and without a type, \<open>geom.type + "_"\<close> adds \<open>None\<close> and a string and raises \<open>TypeError\<close>,
  before the global is assigned. The geometry converters \<open>add_mjcf_visual_to_sdf\<close> and
  \<open>add_mjcf_collision_to_sdf\<close> live in another module; they are the first two parameters,
  each returning \<open>None\<close> when it produces nothing.
\<close>

definition add_mjcf_geom_to_sdf ::
  "('a mjcf_geom_scheme \<Rightarrow> 'v option) \<Rightarrow> ('a mjcf_geom_scheme \<Rightarrow> 'c option) \<Rightarrow>
   'a mjcf_geom_scheme \<Rightarrow> mjcf_inertial option \<Rightarrow> int \<Rightarrow>
   (py_error + ('v, 'c) sdf_Link) \<times> int" where
  "add_mjcf_geom_to_sdf add_mjcf_visual_to_sdf add_mjcf_collision_to_sdf geom inertial
      NUMBER_OF_SDF_LINK =
    (let link = Link in
     case (case name geom of
             Some n \<Rightarrow> Inr (set_name link n, NUMBER_OF_SDF_LINK)
           | None \<Rightarrow>
               (case type geom of
                  None \<Rightarrow> Inl TypeError
                | Some t \<Rightarrow>
                    Inr (set_name link (t @ ''_'' @ str NUMBER_OF_SDF_LINK),
                         NUMBER_OF_SDF_LINK + 1))) of
       Inl e \<Rightarrow> (Inl e, NUMBER_OF_SDF_LINK)
     | Inr (link, NUMBER_OF_SDF_LINK) \<Rightarrow>
        (let link =
           (case inertial of
              None \<Rightarrow> link
            | Some inertial \<Rightarrow>
                (let inertial_pos = (case pos inertial of None \<Rightarrow> (0, 0, 0) | Some p \<Rightarrow> p);
                     inertial_euler = (case euler inertial of None \<Rightarrow> (0, 0, 0) | Some e \<Rightarrow> e);
                     fullinertia =
                       (case fullinertia inertial of None \<Rightarrow> (1, 1, 1, 0, 0, 0) | Some f \<Rightarrow> f)
                 in case (inertial_pos, inertial_euler, fullinertia) of
                      ((p0, p1, p2), (e0, e1, e2), (f0, f1, f2, f3, f4, f5)) \<Rightarrow>
                        set_inertial link
                          (Inertiald (MassMatrix3d (mass inertial) (f0, f1, f2) (f3, f4, f5))
                                     (Pose3d p0 p1 p2 e0 e1 e2))));
             link =
           (case group geom of
              None \<Rightarrow>
                (let link = (case add_mjcf_visual_to_sdf geom of
                               None \<Rightarrow> link | Some visual \<Rightarrow> add_visual link visual);
                     link = (case add_mjcf_collision_to_sdf geom of
                               None \<Rightarrow> link | Some col \<Rightarrow> add_collision link col)
                 in link)
            | Some g \<Rightarrow>
                if g = VISUAL_GEOM_GROUP then
                  (case add_mjcf_visual_to_sdf geom of
                     None \<Rightarrow> link | Some visual \<Rightarrow> add_visual link visual)
                else if g = COLLISION_GEOM_GROUP then
                  (case add_mjcf_collision_to_sdf geom of
                     None \<Rightarrow> link | Some col \<Rightarrow> add_collision link col)
                else link)
         in (Inr link, NUMBER_OF_SDF_LINK)))"

text \<open>What an optional representation contributes to a link: itself, or nothing.\<close>

fun produced :: "'a option \<Rightarrow> 'a list" where
  "produced None = []"
| "produced (Some x) = [x]"

section \<open>SDFormat to MJCF: the joint converter\<close>

text \<open>
  Modelled from the spec: \<open>add_joint\<close> of \<open>sdformat_mjcf/converters/joint.py\<close> is not among
  the repository's sources; only its test \<open>tests/test_add_joint.py\<close> is. What follows is
  the joint specification of the spec's data model and the state machine over the joint
  type of its component design, sentence by sentence.
\<close>

datatype JointType =
  FIXED | REVOLUTE | CONTINUOUS | PRISMATIC | BALL | UNIVERSAL | FREE | GEARBOX | SCREW

text \<open>
  Modelled from the spec: a joint has a name, a type, a pose, an axis that may be absent,
  limits (lower, upper) that are optional and mean unlimited when absent, and the four
  dynamics parameters, each optional with default 0.
\<close>

record 'p JointSpec =
  joint_name :: string
  joint_type :: JointType
  joint_pose :: 'p
  axis :: "Vector3d option"
  limits :: "(real \<times> real) option"
  damping :: "real option"
  friction :: "real option"
  spring_stiffness :: "real option"
  spring_reference :: "real option"

text \<open>
  Modelled from the spec: the destination joint, with the attributes the spec and the
  test name. A ball joint has no axis and no limits, and the spec maps no spring reference
  for it.
\<close>

datatype mjcf_joint_type = hinge | slide | ball

record 'p mjcf_joint =
  mj_name :: string
  mj_type :: mjcf_joint_type
  mj_pose :: 'p
  mj_axis :: "Vector3d option"
  limited :: bool
  mj_range :: "(real \<times> real) option"
  mj_damping :: real
  frictionloss :: real
  stiffness :: real
  springref :: "real option"

text \<open>
  Modelled from the spec: the two conditions a joint conversion reports, a frame that the
  injected pose or axis resolver cannot resolve, and a joint type without a mapping.
\<close>

datatype conversion_error = UnresolvableFrame | UnsupportedJointType

text \<open>Modelled from the spec: the conversion of an angle from radians to degrees.\<close>

definition degrees :: "real \<Rightarrow> real" where
  "degrees x = x * 180 / pi"

text \<open>Modelled from the spec: an optional dynamics parameter, 0 when absent.\<close>

fun or_zero :: "real option \<Rightarrow> real" where
  "or_zero None = 0"
| "or_zero (Some x) = x"

text \<open>
  Modelled from the spec: the state machine over the joint type. \<open>FIXED\<close> emits no joint.
  \<open>REVOLUTE\<close> and \<open>CONTINUOUS\<close> give a hinge, \<open>PRISMATIC\<close> a slide, each with the pose the
  injected pose resolver returns and with the axis the injected axis resolver returns,
  rotated by the orientation of that pose; a resolver that fails aborts the conversion of
  the joint. The rotation of a vector by the orientation of a pose is ignition.math's; it
  is the first parameter. \<open>REVOLUTE\<close> maps its limits, converted to degrees; \<open>CONTINUOUS\<close>
  drops them; \<open>PRISMATIC\<close> maps them as they are. Damping, friction and spring stiffness
  are copied; the spring reference is converted to degrees for the two rotational types
  and copied for \<open>PRISMATIC\<close>. \<open>BALL\<close> gives a ball joint without axis and limits. Every
  other type is reported as unsupported.
\<close>

definition add_joint ::
  "('p \<Rightarrow> Vector3d \<Rightarrow> Vector3d) \<Rightarrow> ('a JointSpec \<Rightarrow> 'p option) \<Rightarrow>
   ('a JointSpec \<Rightarrow> Vector3d option) \<Rightarrow> 'a JointSpec \<Rightarrow>
   conversion_error + 'p mjcf_joint option" where
  "add_joint rotate_vector pose_resolver axis_xyz_resolver joint =
    (case joint_type joint of
       FIXED \<Rightarrow> Inr None
     | BALL \<Rightarrow>
         (case pose_resolver joint of
            None \<Rightarrow> Inl UnresolvableFrame
          | Some p \<Rightarrow>
              Inr (Some \<lparr>mj_name = joint_name joint, mj_type = ball, mj_pose = p,
                         mj_axis = None, limited = False, mj_range = None,
                         mj_damping = or_zero (damping joint),
                         frictionloss = or_zero (friction joint),
                         stiffness = or_zero (spring_stiffness joint),
                         springref = None\<rparr>))
     | t \<Rightarrow>
         if t = REVOLUTE \<or> t = CONTINUOUS \<or> t = PRISMATIC then
           (case (pose_resolver joint, axis_xyz_resolver joint) of
              (Some p, Some a) \<Rightarrow>
                Inr (Some \<lparr>mj_name = joint_name joint,
                           mj_type = (if t = PRISMATIC then slide else hinge),
                           mj_pose = p,
                           mj_axis = Some (rotate_vector p a),
                           limited = (t \<noteq> CONTINUOUS \<and> limits joint \<noteq> None),
                           mj_range =
                             (if t = CONTINUOUS then None
                              else if t = REVOLUTE then
                                map_option (\<lambda>(lower, upper). (degrees lower, degrees upper))
                                  (limits joint)
                              else limits joint),
                           mj_damping = or_zero (damping joint),
                           frictionloss = or_zero (friction joint),
                           stiffness = or_zero (spring_stiffness joint),
                           springref =
                             Some (if t = PRISMATIC then or_zero (spring_reference joint)
                                   else degrees (or_zero (spring_reference joint)))\<rparr>)
            | _ \<Rightarrow> Inl UnresolvableFrame)
         else Inl UnsupportedJointType)"

section \<open>Properties of \<open>str\<close>\<close>

text \<open>Different integers print differently: the digits are distinct, and no digit is the sign.\<close>

lemma digit_char_inj: "d < 10 \<Longrightarrow> e < 10 \<Longrightarrow> digit_char d = digit_char e \<Longrightarrow> d = e"
proof -
  assume d: "d < 10" and e: "e < 10" and eq: "digit_char d = digit_char e"
  have dist: "distinct ''0123456789''" by simp
  have len: "length ''0123456789'' = 10" by simp
  from eq have "''0123456789'' ! d = ''0123456789'' ! e" by (simp only: digit_char_def)
  with dist d e len show "d = e" by (simp only: nth_eq_iff_index_eq)
qed

lemma digit_char_not_minus: "d < 10 \<Longrightarrow> digit_char d \<noteq> CHR ''-''"
proof -
  assume "d < 10"
  then have "d \<in> {0, 1, 2, 3, 4, 5, 6, 7, 8, 9}" by auto
  then show ?thesis by (auto simp: digit_char_def)
qed

lemma str_nat_nonempty: "str_nat n \<noteq> []"
  by (subst str_nat.simps) simp

lemma str_nat_inj: "str_nat m = str_nat n \<Longrightarrow> m = n"
proof (induction m arbitrary: n rule: str_nat.induct)
  case (1 m)
  show ?case
  proof (cases "m < 10")
    case True
    note m = this
    show ?thesis
    proof (cases "n < 10")
      case True
      from "1.prems" m True have "digit_char m = digit_char n"
        by (subst (asm) str_nat.simps, subst (asm) (2) str_nat.simps) simp
      with m True show ?thesis by (rule digit_char_inj)
    next
      case False
      from "1.prems" m False
      have "[digit_char m] = str_nat (n div 10) @ [digit_char (n mod 10)]"
        by (subst (asm) str_nat.simps, subst (asm) (2) str_nat.simps) simp
      then have "str_nat (n div 10) = []" by simp
      with str_nat_nonempty show ?thesis by blast
    qed
  next
    case False
    note m = this
    show ?thesis
    proof (cases "n < 10")
      case True
      from "1.prems" m True
      have "str_nat (m div 10) @ [digit_char (m mod 10)] = [digit_char n]"
        by (subst (asm) str_nat.simps, subst (asm) (2) str_nat.simps) simp
      then have "str_nat (m div 10) = []" by simp
      with str_nat_nonempty show ?thesis by blast
    next
      case False
      from "1.prems" m False
      have "str_nat (m div 10) @ [digit_char (m mod 10)] =
            str_nat (n div 10) @ [digit_char (n mod 10)]"
        by (subst (asm) str_nat.simps, subst (asm) (2) str_nat.simps) simp
      then have a: "str_nat (m div 10) = str_nat (n div 10)"
        and b: "digit_char (m mod 10) = digit_char (n mod 10)" by simp_all
      from "1.IH" [OF m a] have q: "m div 10 = n div 10" .
      have "m mod 10 = n mod 10" by (rule digit_char_inj [OF _ _ b]) simp_all
      with q show ?thesis by (metis div_mult_mod_eq)
    qed
  qed
qed

lemma hd_str_nat: "hd (str_nat n) \<noteq> CHR ''-''"
proof (induction n rule: str_nat.induct)
  case (1 n)
  show ?case
  proof (cases "n < 10")
    case True
    then show ?thesis by (subst str_nat.simps) (simp add: digit_char_not_minus)
  next
    case False
    with 1 have "hd (str_nat (n div 10)) \<noteq> CHR ''-''" by simp
    with False show ?thesis
      by (subst str_nat.simps) (simp add: str_nat_nonempty)
  qed
qed

lemma str_inj: "str i = str j \<Longrightarrow> i = j"
proof -
  assume eq: "str i = str j"
  have sign: "\<And>a b. a < 0 \<Longrightarrow> \<not> b < 0 \<Longrightarrow> str a \<noteq> str b"
  proof
    fix a b :: int
    assume "a < 0" "\<not> b < 0" "str a = str b"
    then have "CHR ''-'' # str_nat (nat (- a)) = str_nat (nat b)" by (simp add: str_def)
    then have "hd (str_nat (nat b)) = CHR ''-''" by (metis list.sel(1))
    with hd_str_nat show False by blast
  qed
  show "i = j"
  proof (cases "i < 0")
    case True
    show ?thesis
    proof (cases "j < 0")
      case True
      with \<open>i < 0\<close> eq have "str_nat (nat (- i)) = str_nat (nat (- j))" by (simp add: str_def)
      then have "nat (- i) = nat (- j)" by (rule str_nat_inj)
      with True \<open>i < 0\<close> show ?thesis by simp
    next
      case False
      with sign [OF \<open>i < 0\<close> False] eq show ?thesis by simp
    qed
  next
    case False
    show ?thesis
    proof (cases "j < 0")
      case True
      with sign [OF True False] eq show ?thesis by simp
    next
      case False
      with \<open>\<not> i < 0\<close> eq have "str_nat (nat i) = str_nat (nat j)" by (simp add: str_def)
      then have "nat i = nat j" by (rule str_nat_inj)
      with False \<open>\<not> i < 0\<close> show ?thesis by simp
    qed
  qed
qed


section \<open>Properties of the geom converter\<close>

subsection \<open>The outcome of a call in closed form\<close>

text \<open>
  The call ends in \<open>TypeError\<close> exactly for a geom without name and type. Otherwise it
  returns the link with the name or the synthetic name, and with an inertial, visuals and
  collisions that do not depend on how the link was named.
\<close>

lemma add_mjcf_geom_to_sdf_closed:
  "add_mjcf_geom_to_sdf vis col geom inertial n =
     (case (case name geom of
              Some s \<Rightarrow> Some (s, n)
            | None \<Rightarrow> (case type geom of None \<Rightarrow> None | Some t \<Rightarrow> Some (t @ ''_'' @ str n, n + 1))) of
        None \<Rightarrow> (Inl TypeError, n)
      | Some (s, n') \<Rightarrow>
          (Inr \<lparr>link_name = s,
                link_inertial =
                  (case inertial of
                     None \<Rightarrow> None
                   | Some i \<Rightarrow>
                       (case (case pos i of None \<Rightarrow> (0, 0, 0) | Some p \<Rightarrow> p,
                              case euler i of None \<Rightarrow> (0, 0, 0) | Some e \<Rightarrow> e,
                              case fullinertia i of None \<Rightarrow> (1, 1, 1, 0, 0, 0) | Some f \<Rightarrow> f) of
                          ((p0, p1, p2), (e0, e1, e2), (f0, f1, f2, f3, f4, f5)) \<Rightarrow>
                            Some (Inertiald (MassMatrix3d (mass i) (f0, f1, f2) (f3, f4, f5))
                                            (Pose3d p0 p1 p2 e0 e1 e2)))),
                link_visuals =
                  (case group geom of
                     None \<Rightarrow> produced (vis geom)
                   | Some g \<Rightarrow> if g = 0 then produced (vis geom) else []),
                link_collisions =
                  (case group geom of
                     None \<Rightarrow> produced (col geom)
                   | Some g \<Rightarrow> if g = 0 then [] else if g = 3 then produced (col geom) else [])\<rparr>,
           n'))"
  by (simp add: add_mjcf_geom_to_sdf_def Link_def set_name_def set_inertial_def add_visual_def
      add_collision_def VISUAL_GEOM_GROUP_def COLLISION_GEOM_GROUP_def Let_def
      split: option.split prod.split)

text \<open>The value the call leaves in the global: one more after a synthetic name, else the same.\<close>

lemma counter_add_mjcf_geom_to_sdf:
  "snd (add_mjcf_geom_to_sdf vis col geom inertial n) =
     (if name geom = None \<and> type geom \<noteq> None then n + 1 else n)"
  by (simp add: add_mjcf_geom_to_sdf_closed split: option.split)

subsection \<open>Visuals and collisions by group\<close>

text \<open>
  Claim C8. The visual and collision content of the converted link is partitioned by the
  group of the geom: with the group unset the link receives the visual and the collision
  representation, each when its geometry converter produces one; with group 0 it receives
  only the visual representation; with group 3 only the collision representation. This
  holds of every link the converter returns, and it returns one for every geom that has
  a name or a type; the call on a geom with neither ends in \<open>TypeError\<close>, with no link.
\<close>

theorem geom_group_partition:
  "(case fst (add_mjcf_geom_to_sdf vis col geom inertial n) of
      Inl e \<Rightarrow> e = TypeError \<and> name geom = None \<and> type geom = None
    | Inr link \<Rightarrow>
        (name geom \<noteq> None \<or> type geom \<noteq> None) \<and>
        (group geom = None \<longrightarrow>
           link_visuals link = produced (vis geom) \<and>
           link_collisions link = produced (col geom)) \<and>
        (group geom = Some VISUAL_GEOM_GROUP \<longrightarrow>
           link_visuals link = produced (vis geom) \<and> link_collisions link = []) \<and>
        (group geom = Some COLLISION_GEOM_GROUP \<longrightarrow>
           link_visuals link = [] \<and> link_collisions link = produced (col geom)))"
  by (simp add: add_mjcf_geom_to_sdf_closed VISUAL_GEOM_GROUP_def COLLISION_GEOM_GROUP_def
      split: option.split)

theorem geom_group_partition_witness:
  "(\<exists>link. fst (add_mjcf_geom_to_sdf (\<lambda>g. Some ''v'') (\<lambda>g. Some ''c'')
       \<lparr>name = Some ''wall'', type = Some ''box'', group = None\<rparr> None 0) = Inr link \<and>
     link_visuals link = [''v''] \<and> link_collisions link = [''c'']) \<and>
   (\<exists>link. fst (add_mjcf_geom_to_sdf (\<lambda>g. Some ''v'') (\<lambda>g. Some ''c'')
       \<lparr>name = None, type = Some ''box'', group = Some 0\<rparr> None 0) = Inr link \<and>
     link_visuals link = [''v''] \<and> link_collisions link = []) \<and>
   (\<exists>link. fst (add_mjcf_geom_to_sdf (\<lambda>g. Some ''v'') (\<lambda>g. Some ''c'')
       \<lparr>name = Some ''wall'', type = None, group = Some 3\<rparr> None 0) = Inr link \<and>
     link_visuals link = [] \<and> link_collisions link = [''c''])"
  using
    geom_group_partition [where vis = "\<lambda>g. Some ''v''" and col = "\<lambda>g. Some ''c''"
      and geom = "\<lparr>name = Some ''wall'', type = Some ''box'', group = None\<rparr>"
      and inertial = None and n = 0]
    geom_group_partition [where vis = "\<lambda>g. Some ''v''" and col = "\<lambda>g. Some ''c''"
      and geom = "\<lparr>name = None, type = Some ''box'', group = Some 0\<rparr>"
      and inertial = None and n = 0]
    geom_group_partition [where vis = "\<lambda>g. Some ''v''" and col = "\<lambda>g. Some ''c''"
      and geom = "\<lparr>name = Some ''wall'', type = None, group = Some 3\<rparr>"
      and inertial = None and n = 0]
  by (simp add: add_mjcf_geom_to_sdf_closed VISUAL_GEOM_GROUP_def COLLISION_GEOM_GROUP_def)

text \<open>
  Claim C10 says that a geom whose group is set to a value other than 0 and other than 3 is
  converted to a link with neither a visual nor a collision, and that no error is
  reported. For a geom with such a group and with neither a name nor a type the call
  returns no link: it ends in \<open>TypeError\<close> where the synthetic name is built, before the
  group is looked at, and leaves the global as it was.
\<close>

theorem geom_other_group_unnamed_untyped_raises:
  "add_mjcf_geom_to_sdf vis col \<lparr>name = None, type = None, group = Some 1\<rparr> inertial n =
     (Inl TypeError, n)"
  by (simp add: add_mjcf_geom_to_sdf_closed)

text \<open>
  For every geom that has a name or a type the chain of tests on the group does what the
  claim says. It has no final \<open>else\<close>, so with any other group the function falls through
  to its \<open>return\<close>, with a link that has no visual and no collision.
\<close>

lemma geom_other_group_named_or_typed:
  "group geom = Some g \<Longrightarrow> g \<noteq> VISUAL_GEOM_GROUP \<Longrightarrow> g \<noteq> COLLISION_GEOM_GROUP \<Longrightarrow>
   name geom \<noteq> None \<or> type geom \<noteq> None \<Longrightarrow>
   \<exists>link n'. add_mjcf_geom_to_sdf vis col geom inertial n = (Inr link, n') \<and>
     link_visuals link = [] \<and> link_collisions link = []"
  by (auto simp: add_mjcf_geom_to_sdf_closed VISUAL_GEOM_GROUP_def COLLISION_GEOM_GROUP_def
      split: option.split)

subsection \<open>The inertial\<close>

text \<open>
  Claim C9. An inertial that gives no products of inertia is one whose \<open>fullinertia\<close> is
  unset, the only attribute the converter reads products from. Its link gets a mass matrix
  whose products are zero. No rotation is applied to them: the Euler angles of the source
  go into the pose of the inertial as they are, whatever their value. The principal
  moments of that mass matrix are the defaults 1, 1, 1 of the same default list, and its
  mass is the mass of the source. This
  holds of every link the converter returns, and it returns one for every geom that has
  a name or a type.
\<close>

theorem products_default_to_zero:
  "fullinertia inertial = None \<Longrightarrow>
   (case fst (add_mjcf_geom_to_sdf vis col geom (Some inertial) n) of
      Inl e \<Rightarrow> e = TypeError \<and> name geom = None \<and> type geom = None
    | Inr link \<Rightarrow>
        (name geom \<noteq> None \<or> type geom \<noteq> None) \<and>
        (\<exists>i. link_inertial link = Some i \<and>
            off_diagonal_moments (mass_matrix i) = (0, 0, 0) \<and>
            diagonal_moments (mass_matrix i) = (1, 1, 1) \<and>
            mass_matrix i = MassMatrix3d (mass inertial) (1, 1, 1) (0, 0, 0) \<and>
            pose_euler (pose i) = (case euler inertial of None \<Rightarrow> (0, 0, 0) | Some e \<Rightarrow> e)))"
  by (simp add: add_mjcf_geom_to_sdf_closed split: option.split prod.split)

theorem products_default_to_zero_witness:
  "\<exists>link i. fst (add_mjcf_geom_to_sdf (\<lambda>g. Some ''v'') (\<lambda>g. Some ''c'')
          \<lparr>name = Some ''wall'', type = Some ''box'', group = None\<rparr>
          (Some \<lparr>mass = 2, pos = None, euler = Some (1, 2, 3), fullinertia = None\<rparr>) 0) = Inr link \<and>
       link_inertial link = Some i \<and>
       off_diagonal_moments (mass_matrix i) = (0, 0, 0) \<and>
       diagonal_moments (mass_matrix i) = (1, 1, 1) \<and>
       mass_matrix i = MassMatrix3d 2 (1, 1, 1) (0, 0, 0) \<and>
       pose_euler (pose i) = (1, 2, 3)"
  using products_default_to_zero [where vis = "\<lambda>g. Some ''v''" and col = "\<lambda>g. Some ''c''"
      and geom = "\<lparr>name = Some ''wall'', type = Some ''box'', group = None\<rparr>"
      and inertial = "\<lparr>mass = 2, pos = None, euler = Some (1, 2, 3), fullinertia = None\<rparr>"
      and n = 0]
  by (simp add: add_mjcf_geom_to_sdf_closed)

subsection \<open>Synthetic names\<close>

text \<open>
  Claim C7, as stated: the counter behind the synthetic names is reset for every document,
  so that two conversions of the same document give an unnamed geom the same link name.
  The counter is a module global that nothing resets. Converted twice in one process, the
  first time with the counter at its initial 0, an unnamed box gets the link name \<open>box_0\<close>
  and then \<open>box_1\<close>.
\<close>

theorem synthetic_name_changes_on_second_conversion:
  "add_mjcf_geom_to_sdf Map.empty Map.empty
     \<lparr>name = None, type = Some ''box'', group = None\<rparr> None 0 =
     (Inr \<lparr>link_name = ''box_0'', link_inertial = None,
           link_visuals = ([] :: unit list), link_collisions = ([] :: unit list)\<rparr>, 1) \<and>
   add_mjcf_geom_to_sdf Map.empty Map.empty
     \<lparr>name = None, type = Some ''box'', group = None\<rparr> None 1 =
     (Inr \<lparr>link_name = ''box_1'', link_inertial = None,
           link_visuals = ([] :: unit list), link_collisions = ([] :: unit list)\<rparr>, 2) \<and>
   ''box_0'' \<noteq> ''box_1''"
  by (simp add: add_mjcf_geom_to_sdf_closed str_def digit_char_def)

text \<open>
  Claim C7, amended: the counter is global to the process and no call resets or lowers
  it. The conversion of an unnamed geom that has a type names the link after the type and
  the value of the counter, and leaves the counter one higher. So two conversions of such
  a geom give the same link name exactly when they start from the same value of the
  counter; the second conversion in a process starts from a higher value than the first
  and gives another name.
\<close>

theorem synthetic_name_follows_global_counter:
  "name geom = None \<Longrightarrow> type geom = Some t \<Longrightarrow>
   (\<exists>link. add_mjcf_geom_to_sdf vis col geom inertial n = (Inr link, n + 1) \<and>
        link_name link = t @ ''_'' @ str n \<and>
        (\<forall>m. \<exists>link'. add_mjcf_geom_to_sdf vis col geom inertial m = (Inr link', m + 1) \<and>
              (link_name link' = link_name link) = (m = n))) \<and>
   k \<le> snd (add_mjcf_geom_to_sdf vis col geom' inertial' k)"
proof -
  assume g: "name geom = None" "type geom = Some t"
  have inj: "\<And>m. (str m = str n) = (m = n)"
    using str_inj by blast
  from g have "\<exists>link. add_mjcf_geom_to_sdf vis col geom inertial n = (Inr link, n + 1) \<and>
        link_name link = t @ ''_'' @ str n \<and>
        (\<forall>m. \<exists>link'. add_mjcf_geom_to_sdf vis col geom inertial m = (Inr link', m + 1) \<and>
              (link_name link' = link_name link) = (m = n))"
    by (simp add: add_mjcf_geom_to_sdf_closed inj)
  moreover have "k \<le> snd (add_mjcf_geom_to_sdf vis col geom' inertial' k)"
    by (simp add: counter_add_mjcf_geom_to_sdf)
  ultimately show ?thesis by blast
qed

theorem synthetic_name_follows_global_counter_witness:
  "\<exists>link link'.
     add_mjcf_geom_to_sdf (Map.empty :: mjcf_geom \<Rightarrow> unit option)
       (Map.empty :: mjcf_geom \<Rightarrow> unit option)
       \<lparr>name = None, type = Some ''sphere'', group = Some 3\<rparr> None 7 = (Inr link, 8) \<and>
     link_name link = ''sphere_7'' \<and>
     add_mjcf_geom_to_sdf (Map.empty :: mjcf_geom \<Rightarrow> unit option)
       (Map.empty :: mjcf_geom \<Rightarrow> unit option)
       \<lparr>name = None, type = Some ''sphere'', group = Some 3\<rparr> None 8 = (Inr link', 9) \<and>
     link_name link' \<noteq> link_name link \<and>
     (8 :: int) \<le> snd (add_mjcf_geom_to_sdf (Map.empty :: mjcf_geom \<Rightarrow> unit option)
       (Map.empty :: mjcf_geom \<Rightarrow> unit option)
       \<lparr>name = Some ''wall'', type = None, group = None\<rparr> None 8)"
proof -
  have unnamed: "name \<lparr>name = None, type = Some ''sphere'', group = Some 3\<rparr> = None"
    and typed: "type \<lparr>name = None, type = Some ''sphere'', group = Some 3\<rparr> = Some ''sphere''"
    by simp_all
  note counter = synthetic_name_follows_global_counter [OF unnamed typed,
      where vis = "Map.empty :: mjcf_geom \<Rightarrow> unit option"
      and col = "Map.empty :: mjcf_geom \<Rightarrow> unit option"
      and inertial = None and n = 7 and k = 8
      and geom' = "\<lparr>name = Some ''wall'', type = None, group = None\<rparr>" and inertial' = None]
  from counter have never_lowered:
    "(8 :: int) \<le> snd (add_mjcf_geom_to_sdf (Map.empty :: mjcf_geom \<Rightarrow> unit option)
       (Map.empty :: mjcf_geom \<Rightarrow> unit option)
       \<lparr>name = Some ''wall'', type = None, group = None\<rparr> None 8)"
    by (rule conjunct2)
  from counter obtain link where
    first: "add_mjcf_geom_to_sdf (Map.empty :: mjcf_geom \<Rightarrow> unit option)
       (Map.empty :: mjcf_geom \<Rightarrow> unit option)
       \<lparr>name = None, type = Some ''sphere'', group = Some 3\<rparr> None 7 = (Inr link, 7 + 1)"
    and named: "link_name link = ''sphere'' @ ''_'' @ str 7"
    and later: "\<forall>m. \<exists>link'. add_mjcf_geom_to_sdf (Map.empty :: mjcf_geom \<Rightarrow> unit option)
       (Map.empty :: mjcf_geom \<Rightarrow> unit option)
       \<lparr>name = None, type = Some ''sphere'', group = Some 3\<rparr> None m = (Inr link', m + 1) \<and>
       (link_name link' = link_name link) = (m = 7)"
    by blast
  from later obtain link' where
    second: "add_mjcf_geom_to_sdf (Map.empty :: mjcf_geom \<Rightarrow> unit option)
       (Map.empty :: mjcf_geom \<Rightarrow> unit option)
       \<lparr>name = None, type = Some ''sphere'', group = Some 3\<rparr> None 8 = (Inr link', 8 + 1)"
    and same: "(link_name link' = link_name link) = ((8 :: int) = 7)"
    by blast
  have printed: "str 7 = ''7''"
    by (simp add: str_def digit_char_def)
  from same have differ: "link_name link' \<noteq> link_name link" by simp
  from named printed have "link_name link = ''sphere_7''" by simp
  with first second differ never_lowered show ?thesis by auto
qed

section \<open>Properties of the joint converter\<close>

text \<open>
  Claim C5, on the joint converter modelled from the spec. A joint of type \<open>FIXED\<close> gives
  no destination joint: the result is the absent value, whatever the resolvers would do.
\<close>

theorem fixed_joint_absent:
  "joint_type joint = FIXED \<Longrightarrow>
   add_joint rotate_vector pose_resolver axis_xyz_resolver joint = Inr None"
  by (simp add: add_joint_def)

theorem fixed_joint_absent_witness:
  "add_joint (\<lambda>p (x, y, z). (- y, x, z)) (\<lambda>j. Some (joint_pose j)) axis
     \<lparr>joint_name = ''joint1'', joint_type = FIXED, joint_pose = (1::real, 2::real, 3::real),
      axis = None, limits = None, damping = None, friction = None,
      spring_stiffness = None, spring_reference = None\<rparr> = Inr None"
  using fixed_joint_absent [where rotate_vector = "\<lambda>p (x, y, z). (- y, x, z)"
      and pose_resolver = "\<lambda>j. Some (joint_pose j)"
      and axis_xyz_resolver = axis
      and joint = "\<lparr>joint_name = ''joint1'', joint_type = FIXED,
        joint_pose = (1::real, 2::real, 3::real),
        axis = None, limits = None, damping = None, friction = None,
        spring_stiffness = None, spring_reference = None\<rparr>"]
  by simp

text \<open>
  Claim C4, on the joint converter modelled from the spec. A \<open>CONTINUOUS\<close> joint loses its
  limits: whatever lower and upper limit the source carries, the conversion either fails
  because a resolver fails, or gives a hinge that is not limited and has no range.
\<close>

theorem continuous_joint_unlimited:
  "joint_type joint = CONTINUOUS \<Longrightarrow>
   (case add_joint rotate_vector pose_resolver axis_xyz_resolver joint of
      Inl e \<Rightarrow> e = UnresolvableFrame \<and>
        (pose_resolver joint = None \<or> axis_xyz_resolver joint = None)
    | Inr None \<Rightarrow> False
    | Inr (Some mj) \<Rightarrow> limited mj = False \<and> mj_range mj = None \<and> mj_type mj = hinge \<and>
        pose_resolver joint = Some (mj_pose mj) \<and>
        mj_axis mj = map_option (rotate_vector (mj_pose mj)) (axis_xyz_resolver joint))"
  by (simp add: add_joint_def split: option.split)

theorem continuous_joint_unlimited_witness:
  "(case add_joint (\<lambda>p (x, y, z). (- y, x, z)) (\<lambda>j. Some (joint_pose j)) axis
     \<lparr>joint_name = ''joint1'', joint_type = CONTINUOUS, joint_pose = (1::real, 2::real, 3::real),
      axis = Some (1, 0, 0), limits = Some (- pi / 4, pi / 2), damping = None, friction = None,
      spring_stiffness = None, spring_reference = None\<rparr> of
      Inl e \<Rightarrow> False
    | Inr None \<Rightarrow> False
    | Inr (Some mj) \<Rightarrow> limited mj = False \<and> mj_range mj = None \<and> mj_type mj = hinge \<and>
        mj_axis mj = Some (0, 1, 0))"
  using continuous_joint_unlimited [where rotate_vector = "\<lambda>p (x, y, z). (- y, x, z)"
      and pose_resolver = "\<lambda>j. Some (joint_pose j)"
      and axis_xyz_resolver = axis
      and joint = "\<lparr>joint_name = ''joint1'', joint_type = CONTINUOUS,
        joint_pose = (1::real, 2::real, 3::real),
        axis = Some (1, 0, 0), limits = Some (- pi / 4, pi / 2), damping = None, friction = None,
        spring_stiffness = None, spring_reference = None\<rparr>"]
  by (simp add: add_joint_def)

text \<open>
  Claim C3, on the joint converter modelled from the spec. For a joint with an axis,
  damping, friction and spring stiffness are copied (friction to \<open>frictionloss\<close>, spring
  stiffness to \<open>stiffness\<close>); the spring reference is multiplied by 180 / \<pi> when the joint
  is \<open>REVOLUTE\<close> or \<open>CONTINUOUS\<close> and copied when it is \<open>PRISMATIC\<close>. The witness has the two
  scenarios of the test: \<pi> / 6 on a revolute joint gives 30, and 0.4 on a prismatic joint
  gives 0.4.
\<close>

theorem joint_dynamics_units:
  "joint_type joint = REVOLUTE \<or> joint_type joint = CONTINUOUS \<or> joint_type joint = PRISMATIC \<Longrightarrow>
   pose_resolver joint = Some p \<Longrightarrow> axis_xyz_resolver joint = Some a \<Longrightarrow>
   \<exists>mj. add_joint rotate_vector pose_resolver axis_xyz_resolver joint = Inr (Some mj) \<and>
     mj_damping mj = or_zero (damping joint) \<and>
     frictionloss mj = or_zero (friction joint) \<and>
     stiffness mj = or_zero (spring_stiffness joint) \<and>
     springref mj =
       Some (if joint_type joint = PRISMATIC then or_zero (spring_reference joint)
             else or_zero (spring_reference joint) * 180 / pi)"
  by (auto simp: add_joint_def degrees_def)

theorem joint_dynamics_units_witness:
  "(\<exists>mj. add_joint (\<lambda>p (x, y, z). (- y, x, z)) (\<lambda>j. Some (joint_pose j)) axis
      \<lparr>joint_name = ''joint1'', joint_type = REVOLUTE, joint_pose = (1::real, 2::real, 3::real),
       axis = Some (1, 0, 0), limits = None, damping = Some (1 / 10), friction = Some (2 / 10),
       spring_stiffness = Some (3 / 10), spring_reference = Some (pi / 6)\<rparr> = Inr (Some mj) \<and>
     mj_damping mj = 1 / 10 \<and> frictionloss mj = 2 / 10 \<and> stiffness mj = 3 / 10 \<and>
     springref mj = Some 30) \<and>
   (\<exists>mj. add_joint (\<lambda>p (x, y, z). (- y, x, z)) (\<lambda>j. Some (joint_pose j)) axis
      \<lparr>joint_name = ''joint1'', joint_type = PRISMATIC, joint_pose = (1::real, 2::real, 3::real),
       axis = Some (1, 0, 0), limits = None, damping = Some (1 / 10), friction = Some (2 / 10),
       spring_stiffness = Some (3 / 10), spring_reference = Some (4 / 10)\<rparr> = Inr (Some mj) \<and>
     mj_damping mj = 1 / 10 \<and> frictionloss mj = 2 / 10 \<and> stiffness mj = 3 / 10 \<and>
     springref mj = Some (4 / 10))"
  using
    joint_dynamics_units [where rotate_vector = "\<lambda>p (x, y, z). (- y, x, z)"
      and pose_resolver = "\<lambda>j. Some (joint_pose j)"
      and axis_xyz_resolver = axis and p = "(1, 2, 3)" and a = "(1, 0, 0)"
      and joint = "\<lparr>joint_name = ''joint1'', joint_type = REVOLUTE,
        joint_pose = (1::real, 2::real, 3::real),
        axis = Some (1, 0, 0), limits = None, damping = Some (1 / 10), friction = Some (2 / 10),
        spring_stiffness = Some (3 / 10), spring_reference = Some (pi / 6)\<rparr>"]
    joint_dynamics_units [where rotate_vector = "\<lambda>p (x, y, z). (- y, x, z)"
      and pose_resolver = "\<lambda>j. Some (joint_pose j)"
      and axis_xyz_resolver = axis and p = "(1, 2, 3)" and a = "(1, 0, 0)"
      and joint = "\<lparr>joint_name = ''joint1'', joint_type = PRISMATIC,
        joint_pose = (1::real, 2::real, 3::real),
        axis = Some (1, 0, 0), limits = None, damping = Some (1 / 10), friction = Some (2 / 10),
        spring_stiffness = Some (3 / 10), spring_reference = Some (4 / 10)\<rparr>"]
  by simp

end
